theory Spec2Isabelle
  imports Main
begin

section \<open>Errors\<close>

text \<open>
  The exceptions that \<^verbatim>\<open>anonymize.py\<close> can raise, as values. Every function of the
  model that can raise returns \<open>error + 'a\<close>, with \<open>Inl\<close> for the exception.
\<close>

datatype error =
    AttributeError      \<comment> \<open>\<^verbatim>\<open>re.search(...)\<close> returned \<^verbatim>\<open>None\<close> and \<^verbatim>\<open>.group\<close> was read\<close>
  | IndexError          \<comment> \<open>\<^verbatim>\<open>split(".")[10]\<close> out of range\<close>
  | ValueError          \<comment> \<open>\<^verbatim>\<open>strptime\<close> rejected the date, or a read of negative length below -1\<close>
  | TypeError           \<comment> \<open>a group that did not take part in the match was joined or measured\<close>
  | StructError         \<comment> \<open>\<^verbatim>\<open>struct.unpack\<close> on a buffer of the wrong size\<close>
  | OverflowError       \<comment> \<open>a seek offset beyond the signed 64-bit range\<close>
  | UnboundLocalError   \<comment> \<open>a local variable read before any assignment\<close>

section \<open>Regular expressions\<close>

text \<open>
  The header text is decoded as latin-1, so a character is one byte and \<^typ>\<open>string\<close>
  (a list of 8-bit \<^typ>\<open>char\<close>) is the text exactly. The classes are those of Python's
  \<^verbatim>\<open>re\<close> on \<^verbatim>\<open>str\<close> patterns, restricted to the latin-1 range: \<^verbatim>\<open>\s\<close> is
  \<^verbatim>\<open>str.isspace\<close>, \<^verbatim>\<open>\d\<close> the decimal digits, \<^verbatim>\<open>\w\<close> is \<^verbatim>\<open>str.isalnum\<close>
  or the underscore, and \<^verbatim>\<open>.\<close> is any character but the newline.
\<close>

definition is_space :: "char \<Rightarrow> bool" where
  "is_space c = (c \<in> set [CHR 0x09, CHR 0x0A, CHR 0x0B, CHR 0x0C, CHR 0x0D,
     CHR 0x1C, CHR 0x1D, CHR 0x1E, CHR 0x1F, CHR 0x20, CHR 0x85, CHR 0xA0])"

definition is_digit :: "char \<Rightarrow> bool" where
  "is_digit c = (c \<in> set ''0123456789'')"

definition is_word :: "char \<Rightarrow> bool" where
  "is_word c = (let n = (of_char c :: nat) in
     (48 \<le> n \<and> n \<le> 57) \<or> (65 \<le> n \<and> n \<le> 90) \<or> n = 95 \<or> (97 \<le> n \<and> n \<le> 122) \<or>
     n = 170 \<or> n = 178 \<or> n = 179 \<or> n = 181 \<or> n = 185 \<or> n = 186 \<or>
     (188 \<le> n \<and> n \<le> 190) \<or> (192 \<le> n \<and> n \<le> 214) \<or> (216 \<le> n \<and> n \<le> 246) \<or>
     (248 \<le> n \<and> n \<le> 255))"

datatype atom =
    Dot               \<comment> \<open>\<^verbatim>\<open>.\<close>\<close>
  | Space             \<comment> \<open>\<^verbatim>\<open>\s\<close>\<close>
  | Digit             \<comment> \<open>\<^verbatim>\<open>\d\<close>\<close>
  | DigitDot          \<comment> \<open>\<^verbatim>\<open>[\d\.]\<close>\<close>
  | Word              \<comment> \<open>\<^verbatim>\<open>\w\<close>\<close>
  | OneOf string      \<comment> \<open>a bracket class listing its characters, as \<^verbatim>\<open>[0-2]\<close>\<close>

fun atom_matches :: "atom \<Rightarrow> char \<Rightarrow> bool" where
  "atom_matches Dot c = (c \<noteq> CHR ''\<newline>'')"
| "atom_matches Space c = is_space c"
| "atom_matches Digit c = is_digit c"
| "atom_matches DigitDot c = (is_digit c \<or> c = CHR ''.'')"
| "atom_matches Word c = is_word c"
| "atom_matches (OneOf cs) c = (c \<in> set cs)"

datatype re =
    Str string        \<comment> \<open>a run of literal characters\<close>
  | Atom atom         \<comment> \<open>one character of a class\<close>
  | Star atom         \<comment> \<open>\<^verbatim>\<open>a*\<close>, greedy\<close>
  | Plus atom         \<comment> \<open>\<^verbatim>\<open>a+\<close>, greedy\<close>
  | Rep nat atom      \<comment> \<open>\<^verbatim>\<open>a{n}\<close>\<close>
  | Opt re            \<comment> \<open>\<^verbatim>\<open>r?\<close>, greedy\<close>
  | Alt re re         \<comment> \<open>\<^verbatim>\<open>r|s\<close>, the left branch first\<close>
  | Cat re re         \<comment> \<open>concatenation\<close>
  | Grp nat re        \<comment> \<open>a capturing group with its number\<close>

type_synonym caps = "(nat \<times> string) list"

fun strip_prefix :: "string \<Rightarrow> string \<Rightarrow> string option" where
  "strip_prefix [] s = Some s"
| "strip_prefix (c # cs) [] = None"
| "strip_prefix (c # cs) (d # ds) = (if c = d then strip_prefix cs ds else None)"

text \<open>
  All ways a greedy repetition of one class can split a text, the longest first: the order
  in which a backtracking matcher tries them.
\<close>

fun star :: "atom \<Rightarrow> string \<Rightarrow> (string \<times> string) list" where
  "star a [] = [([], [])]"
| "star a (c # cs) =
     (if atom_matches a c then map (\<lambda>(m, r). (c # m, r)) (star a cs) else []) @ [([], c # cs)]"

fun plus_splits :: "atom \<Rightarrow> string \<Rightarrow> (string \<times> string) list" where
  "plus_splits a [] = []"
| "plus_splits a (c # cs) =
     (if atom_matches a c then map (\<lambda>(m, r). (c # m, r)) (star a cs) else [])"

fun rep_splits :: "nat \<Rightarrow> atom \<Rightarrow> string \<Rightarrow> (string \<times> string) list" where
  "rep_splits 0 a s = [([], s)]"
| "rep_splits (Suc n) a [] = []"
| "rep_splits (Suc n) a (c # cs) =
     (if atom_matches a c then map (\<lambda>(m, r). (c # m, r)) (rep_splits n a cs) else [])"

text \<open>
  \<open>ms r s\<close> lists every match of \<open>r\<close> at the start of \<open>s\<close> in the matcher's order of
  preference, each as the text matched, the groups captured and the text left.
  Python's backtracking matcher returns the first of them.
\<close>

fun ms :: "re \<Rightarrow> string \<Rightarrow> (string \<times> caps \<times> string) list" where
  "ms (Str l) s = (case strip_prefix l s of Some r \<Rightarrow> [(l, [], r)] | None \<Rightarrow> [])"
| "ms (Atom a) s =
     (case s of [] \<Rightarrow> [] | c # cs \<Rightarrow> if atom_matches a c then [([c], [], cs)] else [])"
| "ms (Star a) s = map (\<lambda>(m, r). (m, [], r)) (star a s)"
| "ms (Plus a) s = map (\<lambda>(m, r). (m, [], r)) (plus_splits a s)"
| "ms (Rep n a) s = map (\<lambda>(m, r). (m, [], r)) (rep_splits n a s)"
| "ms (Opt r) s = ms r s @ [([], [], s)]"
| "ms (Alt r1 r2) s = ms r1 s @ ms r2 s"
| "ms (Cat r1 r2) s =
     concat (map (\<lambda>(m1, g1, s1). map (\<lambda>(m2, g2, s2). (m1 @ m2, g1 @ g2, s2)) (ms r2 s1))
       (ms r1 s))"
| "ms (Grp n r) s = map (\<lambda>(m, g, s'). (m, (n, m) # g, s')) (ms r s)"

fun cats :: "re list \<Rightarrow> re" where
  "cats [] = Str []"
| "cats [r] = r"
| "cats (r # rs) = Cat r (cats rs)"

text \<open>\<^verbatim>\<open>re.match\<close>: the first match at the start of the text.\<close>

definition re_match :: "re \<Rightarrow> string \<Rightarrow> (string \<times> caps \<times> string) option" where
  "re_match r s = (case ms r s of [] \<Rightarrow> None | x # _ \<Rightarrow> Some x)"

text \<open>
  \<^verbatim>\<open>re.search\<close>: the first match at the leftmost position that has one, with the text
  before it.
\<close>

fun re_search :: "re \<Rightarrow> string \<Rightarrow> (string \<times> string \<times> caps \<times> string) option" where
  "re_search r [] = (case re_match r [] of None \<Rightarrow> None | Some (m, g, t) \<Rightarrow> Some ([], m, g, t))"
| "re_search r (c # cs) =
     (case re_match r (c # cs) of
        Some (m, g, t) \<Rightarrow> Some ([], m, g, t)
      | None \<Rightarrow>
          (case re_search r cs of
             None \<Rightarrow> None
           | Some (pre, m, g, t) \<Rightarrow> Some (c # pre, m, g, t)))"

text \<open>
  \<^verbatim>\<open>match.group(n)\<close>. A group that took no part in the match is \<^verbatim>\<open>None\<close> in Python;
  every use in the source joins it or takes its length, which raises \<^verbatim>\<open>TypeError\<close>.
\<close>

definition group :: "caps \<Rightarrow> nat \<Rightarrow> error + string" where
  "group g n = (case map_of g n of None \<Rightarrow> Inl TypeError | Some v \<Rightarrow> Inr v)"

text \<open>
  \<^verbatim>\<open>re.sub(r, f, s)\<close> with a function \<open>f\<close>: the non-overlapping matches, found from left
  to right, are replaced by what \<open>f\<close> returns for them. After a match the scan resumes
  where it ended; an empty match is followed by one copied character.
\<close>

lemma strip_prefix_Some: "strip_prefix l s = Some r \<Longrightarrow> s = l @ r"
  by (induction l s rule: strip_prefix.induct) (auto split: if_splits)

lemma star_consumes: "(m, r) \<in> set (star a s) \<Longrightarrow> m @ r = s"
  by (induction s arbitrary: m r) (auto split: if_splits)

lemma plus_splits_consumes: "(m, r) \<in> set (plus_splits a s) \<Longrightarrow> m @ r = s"
  by (cases s) (auto split: if_splits dest: star_consumes)

lemma rep_splits_consumes: "(m, r) \<in> set (rep_splits n a s) \<Longrightarrow> m @ r = s"
  by (induction n a s arbitrary: m r rule: rep_splits.induct) (auto split: if_splits)

lemma ms_consumes: "(m, g, t) \<in> set (ms r s) \<Longrightarrow> m @ t = s"
proof (induction r arbitrary: m g t s)
  case (Str l)
  then show ?case by (auto split: option.splits dest: strip_prefix_Some[OF sym])
next
  case (Atom a)
  then show ?case by (auto split: list.splits if_splits)
next
  case (Star a)
  then show ?case by (auto dest: star_consumes)
next
  case (Plus a)
  then show ?case by (auto dest: plus_splits_consumes)
next
  case (Rep n a)
  then show ?case by (auto dest: rep_splits_consumes)
next
  case (Opt r)
  then show ?case by auto
next
  case (Alt r1 r2)
  then show ?case by auto
next
  case (Cat r1 r2)
  from Cat.prems obtain m1 g1 s1 m2 g2 where
    a: "(m1, g1, s1) \<in> set (ms r1 s)" and b: "(m2, g2, t) \<in> set (ms r2 s1)"
    and c: "m = m1 @ m2"
    by auto
  from Cat.IH(1)[OF a] Cat.IH(2)[OF b] c show ?case by simp
next
  case (Grp n r)
  then show ?case by auto
qed

lemma re_match_consumes: "re_match r s = Some (m, g, t) \<Longrightarrow> m @ t = s"
proof -
  assume "re_match r s = Some (m, g, t)"
  then have "(m, g, t) \<in> set (ms r s)"
    by (auto simp: re_match_def split: list.splits)
  then show ?thesis by (rule ms_consumes)
qed

function re_sub :: "re \<Rightarrow> (string \<Rightarrow> caps \<Rightarrow> error + string) \<Rightarrow> string \<Rightarrow> error + string" where
  "re_sub r f s =
     (case re_match r s of
        None \<Rightarrow>
          (case s of
             [] \<Rightarrow> Inr []
           | c # cs \<Rightarrow> (case re_sub r f cs of Inl e \<Rightarrow> Inl e | Inr u \<Rightarrow> Inr (c # u)))
      | Some (m, g, t) \<Rightarrow>
          (case f m g of
             Inl e \<Rightarrow> Inl e
           | Inr v \<Rightarrow>
               (if m = [] then
                  (case s of
                     [] \<Rightarrow> Inr v
                   | c # cs \<Rightarrow>
                       (case re_sub r f cs of Inl e \<Rightarrow> Inl e | Inr u \<Rightarrow> Inr (v @ c # u)))
                else
                  (case re_sub r f t of Inl e \<Rightarrow> Inl e | Inr u \<Rightarrow> Inr (v @ u)))))"
  by pat_completeness auto
termination
proof (relation "measure (\<lambda>(r, f, s). length s)")
  show "wf (measure (\<lambda>(r, f, s). length s))" by simp
next
  fix r :: re and f :: "string \<Rightarrow> caps \<Rightarrow> error + string" and s :: string and c cs
  assume "s = c # cs"
  then show "((r, f, cs), (r, f, s)) \<in> measure (\<lambda>(r, f, s). length s)" by simp
next
  fix r :: re and f :: "string \<Rightarrow> caps \<Rightarrow> error + string" and s :: string and x m y g t v c cs
  assume "s = c # cs"
  then show "((r, f, cs), (r, f, s)) \<in> measure (\<lambda>(r, f, s). length s)" by simp
next
  fix r :: re and f :: "string \<Rightarrow> caps \<Rightarrow> error + string" and s :: string and x m y g t v
  assume a: "re_match r s = Some x" "(m, y) = x" "(g, t) = y" "m \<noteq> []"
  then have "m @ t = s" by (auto intro: re_match_consumes)
  with a show "((r, f, t), (r, f, s)) \<in> measure (\<lambda>(r, f, s). length s)" by (cases m) auto
qed

section \<open>The exam date\<close>

text \<open>\<^verbatim>\<open>str.split(d)\<close> with a separator of one character.\<close>

fun split_on :: "char \<Rightarrow> string \<Rightarrow> string list" where
  "split_on d [] = [[]]"
| "split_on d (c # cs) =
     (if c = d then [] # split_on d cs
      else (case split_on d cs of [] \<Rightarrow> [[c]] | x # xs \<Rightarrow> (c # x) # xs))"

definition index :: "'a list \<Rightarrow> nat \<Rightarrow> error + 'a" where
  "index xs i = (if i < length xs then Inr (xs ! i) else Inl IndexError)"

text \<open>
  \<^verbatim>\<open>datetime.strptime(date_str, "%y%m%d")\<close> is the standard library's: the format becomes
  the regular expression below (CPython's \<^verbatim>\<open>_strptime\<close>), the text must match it from its
  start and leave nothing over, a year below 69 is in the 2000s and any other in the
  1900s, and the day must exist in its month. \<^verbatim>\<open>strftime("%Y-%m-%d")\<close> prints the year
  (four digits for the years that \<^verbatim>\<open>%y\<close> can give), and month and day on two digits.
\<close>

definition strptime_re :: re where
  "strptime_re = cats
     [Grp 1 (Cat (Atom Digit) (Atom Digit)),
      Grp 2 (Alt (Cat (Str ''1'') (Atom (OneOf ''012'')))
            (Alt (Cat (Str ''0'') (Atom (OneOf ''123456789'')))
                 (Atom (OneOf ''123456789'')))),
      Grp 3 (Alt (Cat (Str ''3'') (Atom (OneOf ''01'')))
            (Alt (Cat (Atom (OneOf ''12'')) (Atom Digit))
            (Alt (Cat (Str ''0'') (Atom (OneOf ''123456789'')))
            (Alt (Atom (OneOf ''123456789''))
                 (Cat (Str '' '') (Atom (OneOf ''123456789'')))))))]"

definition digit_val :: "char \<Rightarrow> nat" where
  "digit_val c = of_char c - 48"

definition digit_char :: "nat \<Rightarrow> char" where
  "digit_char n = char_of (48 + n)"

text \<open>\<^verbatim>\<open>int(s)\<close> on a text the expression above has matched (a blank counts as nothing).\<close>

definition int_of :: "string \<Rightarrow> nat" where
  "int_of s = foldl (\<lambda>a c. 10 * a + digit_val c) 0 (filter is_digit s)"

definition leap :: "nat \<Rightarrow> bool" where
  "leap y = (y mod 4 = 0 \<and> (y mod 100 \<noteq> 0 \<or> y mod 400 = 0))"

definition days_in_month :: "nat \<Rightarrow> nat \<Rightarrow> nat" where
  "days_in_month y m =
     (if m = 2 then (if leap y then 29 else 28)
      else if m = 4 \<or> m = 6 \<or> m = 9 \<or> m = 11 then 30 else 31)"

definition dec2 :: "nat \<Rightarrow> string" where
  "dec2 n = [digit_char (n div 10 mod 10), digit_char (n mod 10)]"

definition dec4 :: "nat \<Rightarrow> string" where
  "dec4 n = [digit_char (n div 1000 mod 10), digit_char (n div 100 mod 10),
             digit_char (n div 10 mod 10), digit_char (n mod 10)]"

definition strptime_ymd :: "string \<Rightarrow> error + (nat \<times> nat \<times> nat)" where
  "strptime_ymd date_str =
     (case re_match strptime_re date_str of
        None \<Rightarrow> Inl ValueError
      | Some (m, g, t) \<Rightarrow>
          if t \<noteq> [] then Inl ValueError
          else
            (case (group g 1, group g 2, group g 3) of
               (Inr y, Inr mo, Inr d) \<Rightarrow>
                 (let yy = int_of y;
                      year = (if yy \<le> 68 then yy + 2000 else yy + 1900);
                      month = int_of mo;
                      day = int_of d
                  in if 1 \<le> month \<and> month \<le> 12 \<and> 1 \<le> day \<and> day \<le> days_in_month year month
                     then Inr (year, month, day) else Inl ValueError)
             | _ \<Rightarrow> Inl TypeError))"

definition strftime_ymd :: "nat \<times> nat \<times> nat \<Rightarrow> string" where
  "strftime_ymd date_obj =
     (case date_obj of (year, month, day) \<Rightarrow> dec4 year @ ''-'' @ dec2 month @ ''-'' @ dec2 day)"

definition get_date :: "string \<Rightarrow> error + string" where
  "get_date date_str =
     (case strptime_ymd date_str of
        Inl e \<Rightarrow> Inl e
      | Inr date_obj \<Rightarrow> Inr (strftime_ymd date_obj))"

section \<open>The catalog of field patterns\<close>

text \<open>
  Each pattern is the source's regular expression, constructor by constructor. The
  catalogs are association lists in the order of the source's dictionaries.
\<close>

definition string_field :: "string \<Rightarrow> re" where
  \<comment> \<open>\<^verbatim>\<open>(<ParamString.\"NAME\">\s*\{\s*\")(.+)(\"\s*\}\n)\<close>\<close>
  \<open>string_field name = cats
     [Grp 1 (cats [Str ''<ParamString'', Atom Dot, Str (''"'' @ name @ ''">''),
                   Star Space, Str ''{'', Star Space, Str ''"'']),
      Grp 2 (Plus Dot),
      Grp 3 (cats [Str ''"'', Star Space, Str ''}\<newline>''])]\<close>

definition long_field :: "string \<Rightarrow> re" where
  \<comment> \<open>\<^verbatim>\<open>(<ParamLong.\"NAME\">\s*\{\s*)(\d+)(\s*\}\n)\<close>\<close>
  \<open>long_field name = cats
     [Grp 1 (cats [Str ''<ParamLong'', Atom Dot, Str (''"'' @ name @ ''">''),
                   Star Space, Str ''{'', Star Space]),
      Grp 2 (Plus Digit),
      Grp 3 (cats [Star Space, Str ''}\<newline>''])]\<close>

definition double_field :: "string \<Rightarrow> re" where
  \<comment> \<open>\<^verbatim>\<open>(<ParamDouble.\"NAME\">\s*\{\s*<Precision> \d+\s*)(\d+\.\d*)(\s*\}\n)\<close>\<close>
  \<open>double_field name = cats
     [Grp 1 (cats [Str ''<ParamDouble'', Atom Dot, Str (''"'' @ name @ ''">''),
                   Star Space, Str ''{'', Star Space, Str ''<Precision> '', Plus Digit,
                   Star Space]),
      Grp 2 (cats [Plus Digit, Str ''.'', Star Digit]),
      Grp 3 (cats [Star Space, Str ''}\<newline>''])]\<close>

definition visible :: re where
  \<comment> \<open>\<^verbatim>\<open>(\s*<Visible>\s*\"true\"\s*)?\<close>, the second group of the patterns that have it\<close>
  \<open>visible = Opt (Grp 2 (cats [Star Space, Str ''<Visible>'', Star Space, Str ''"true"'',
                               Star Space]))\<close>

definition masked_field :: "re list \<Rightarrow> re" where
  \<comment> \<open>\<^verbatim>\<open>(<ParamString.\"NAME\">\s*\{(\s*<Visible>\s*\"true\"\s*)?\s*\")(.+)(\"\s*\}\n)\<close>,
      the name given as the expressions between the quotes\<close>
  \<open>masked_field name = cats
     [Grp 1 (cats ([Str ''<ParamString'', Atom Dot, Str ''"''] @ name @
                   [Str ''">'', Star Space, Str ''{'', visible, Star Space, Str ''"''])),
      Grp 3 (Plus Dot),
      Grp 4 (cats [Str ''"'', Star Space, Str ''}\<newline>''])]\<close>

definition number_buffer :: "(string \<times> re) list" where
  "number_buffer =
     [(''Patient_id'', string_field ''PatientID''),
      (''Device_serial'', string_field ''DeviceSerialNumber''),
      (''Exam_memory_uid'', string_field ''ExamMemoryUID''),
      (''PatientLOID'', string_field ''PatientLOID''),
      (''StudyLOID'', string_field ''StudyLOID''),
      (''SeriesLOID'', string_field ''SeriesLOID''),
      (''Study'', string_field ''Study''),
      (''FrameOfReference'', string_field ''FrameOfReference''),
      (''Patient'', string_field ''Patient''),
      (''MeasUID'', string_field ''MeasUID'')]"

definition x_buffer :: "(string \<times> re) list" where
  "x_buffer =
     [(''Patient_name'',
         masked_field [Opt (Str ''t''), Str ''Patient'', Opt (Str ''s''), Str ''Name'']),
      (''InstitutionAddress'', masked_field [Str ''InstitutionAddress'']),
      (''InstitutionName'', masked_field [Str ''InstitutionName''])]"

definition zero_buffer :: "(string \<times> re) list" where
  \<open>zero_buffer =
     [(''Patient_gender'', cats
         [Grp 1 (cats [Str ''<ParamLong'', Atom Dot, Str ''"'', Opt (Str ''l''),
                       Str ''PatientSex">'', Star Space, Str ''{'', visible, Star Space]),
          Grp 3 (Plus Digit),
          Grp 4 (cats [Star Space, Str ''}\<newline>''])]),
      (''Patient_age'', cats
         [Grp 1 (cats [Str ''<ParamDouble'', Atom Dot, Str ''"flPatientAge">'', Star Space,
                       Str ''{'', visible, Star Space, Str ''<Precision> '', Plus Digit,
                       Star Space]),
          Grp 3 (cats [Plus Digit, Str ''.'', Star Digit]),
          Grp 4 (cats [Star Space, Str ''}\<newline>''])]),
      (''Patient_weight'', cats
         [Grp 1 (cats [Str ''<ParamDouble'', Atom Dot, Str ''"flUsedPatientWeight">'',
                       Star Space, Str ''{'', visible, Star Space, Str ''<Precision> '',
                       Plus Digit, Star Space]),
          Grp 3 (cats [Plus Digit, Str ''.'', Star Digit]),
          Grp 4 (cats [Star Space, Str ''}\<newline>''])]),
      (''Patient_height'', cats
         [Grp 1 (cats [Str ''<ParamDouble'', Atom Dot, Str ''"flPatientHeight">'', Star Space,
                       Str ''{'', visible, Star Space, Str ''<Unit> "[mm]"'', Star Space,
                       Str ''<Precision> '', Plus Digit, Star Space]),
          Grp 3 (cats [Plus Digit, Str ''.'', Star Digit]),
          Grp 4 (cats [Star Space, Str ''}\<newline>''])]),
      (''Patient_birthday'', cats
         [Grp 1 (cats [Str ''<ParamString'', Atom Dot, Str ''"PatientBirthDay">'', Star Space,
                       Str ''{'', visible, Star Space, Str ''"'']),
          Grp 3 (Rep 8 Digit),
          Grp 4 (cats [Str ''"'', Star Space, Str ''}\<newline>''])]),
      (''ulVersion'', cats
         [Grp 1 (cats [Str ''<ParamLong'', Atom Dot, Str ''"ulVersion">'', Star Space,
                       Str ''{'', visible, Star Space]),
          Grp 3 (Plus Digit),
          Grp 4 (cats [Star Space, Str ''}\<newline>''])])]\<close>

definition meta_buffer :: "(string \<times> re) list" where
  "meta_buffer =
     [(''tBodyPartExamined'', string_field ''tBodyPartExamined''),
      (''Sequence'', string_field ''SequenceDescription''),
      (''TurboFactor'', long_field ''TurboFactor''),
      (''ReadoutOversamplingFactor'', double_field ''ReadoutOversamplingFactor''),
      (''NSlc'', long_field ''NSlc''),
      (''PhaseEncodingLines'', long_field ''PhaseEncodingLines''),
      (''ReadFoV'', double_field ''ReadFoV''),
      (''PhaseFoV'', double_field ''PhaseFoV''),
      (''PhaseResolution'', double_field ''PhaseResolution''),
      (''TR'', double_field ''TR''),
      (''TI'', double_field ''TI''),
      (''flMagneticFieldStrength'', double_field ''flMagneticFieldStrength''),
      (''PatientPosition'', string_field ''PatientPosition'')]"

definition frame_of_reference_re :: re where
  \<comment> \<open>\<^verbatim>\<open>(<ParamString.\"FrameOfReference\">  { )(\".+\")(  }\n)\<close>\<close>
  \<open>frame_of_reference_re = cats
     [Grp 1 (cats [Str ''<ParamString'', Atom Dot, Str ''"FrameOfReference">  { '']),
      Grp 2 (cats [Str ''"'', Plus Dot, Str ''"'']),
      Grp 3 (Str ''  }\<newline>'')]\<close>

definition sweep_re :: "string \<Rightarrow> re" where
  \<comment> \<open>\<^verbatim>\<open>\"[\d\.]*{0}[\d\.]*\"\<close> with the exam date formatted in; the date has passed
      \<^verbatim>\<open>strptime\<close>, so it is digits and blanks, which stand for themselves\<close>
  \<open>sweep_re exam_date = cats
     [Str ''"'', Star DigitDot, Str exam_date, Star DigitDot, Str ''"'']\<close>

section \<open>The field redactor\<close>

type_synonym matches = "string \<rightharpoonup> string"

definition number_repl :: "string \<Rightarrow> caps \<Rightarrow> error + string" where
  \<comment> \<open>\<^verbatim>\<open>"".join((match.group(1), "0" * len(match.group(2)), match.group(3)))\<close>\<close>
  "number_repl m g =
     (case (group g 1, group g 2, group g 3) of
        (Inr g1, Inr g2, Inr g3) \<Rightarrow> Inr (g1 @ replicate (length g2) (CHR ''0'') @ g3)
      | _ \<Rightarrow> Inl TypeError)"

definition zero_repl :: "string \<Rightarrow> caps \<Rightarrow> error + string" where
  \<comment> \<open>\<^verbatim>\<open>"".join((match.group(1), re.sub(r"\d", "0", match.group(3)), match.group(4)))\<close>\<close>
  "zero_repl m g =
     (case (group g 1, group g 3, group g 4) of
        (Inr g1, Inr g3, Inr g4) \<Rightarrow>
          (case re_sub (Atom Digit) (\<lambda>_ _. Inr ''0'') g3 of
             Inl e \<Rightarrow> Inl e
           | Inr z \<Rightarrow> Inr (g1 @ z @ g4))
      | _ \<Rightarrow> Inl TypeError)"

definition x_repl :: "string \<Rightarrow> caps \<Rightarrow> error + string" where
  \<comment> \<open>\<^verbatim>\<open>"".join((match.group(1), "x" * len(match.group(3)), match.group(4)))\<close>\<close>
  "x_repl m g =
     (case (group g 1, group g 3, group g 4) of
        (Inr g1, Inr g3, Inr g4) \<Rightarrow> Inr (g1 @ replicate (length g3) (CHR ''x'') @ g4)
      | _ \<Rightarrow> Inl TypeError)"

definition sweep_repl :: "string \<Rightarrow> caps \<Rightarrow> error + string" where
  \<comment> \<open>\<^verbatim>\<open>re.sub(r"\w", "x", match.group())\<close>\<close>
  "sweep_repl m g = re_sub (Atom Word) (\<lambda>_ _. Inr ''x'') m"

text \<open>
  The four loops over the catalogs. The state is the header text and the dictionary
  \<^verbatim>\<open>matches\<close>. Only the loop over \<^verbatim>\<open>x_buffer\<close> reads the match without testing it.
\<close>

fun number_loop :: "(string \<times> re) list \<Rightarrow> string \<times> matches \<Rightarrow> error + (string \<times> matches)" where
  "number_loop [] st = Inr st"
| "number_loop ((key, buffer) # rest) (header_string, matches) =
     (case re_search buffer header_string of
        None \<Rightarrow> number_loop rest (header_string, matches)
      | Some (pre, m, g, t) \<Rightarrow>
          (case group g 2 of
             Inl e \<Rightarrow> Inl e
           | Inr v \<Rightarrow>
               (case re_sub buffer number_repl header_string of
                  Inl e \<Rightarrow> Inl e
                | Inr h \<Rightarrow> number_loop rest (h, matches(key \<mapsto> v)))))"

fun zero_loop :: "(string \<times> re) list \<Rightarrow> string \<times> matches \<Rightarrow> error + (string \<times> matches)" where
  "zero_loop [] st = Inr st"
| "zero_loop ((key, buffer) # rest) (header_string, matches) =
     (case re_search buffer header_string of
        None \<Rightarrow> zero_loop rest (header_string, matches)
      | Some (pre, m, g, t) \<Rightarrow>
          (case group g 3 of
             Inl e \<Rightarrow> Inl e
           | Inr v \<Rightarrow>
               (case re_sub buffer zero_repl header_string of
                  Inl e \<Rightarrow> Inl e
                | Inr h \<Rightarrow> zero_loop rest (h, matches(key \<mapsto> v)))))"

fun x_loop :: "(string \<times> re) list \<Rightarrow> string \<times> matches \<Rightarrow> error + (string \<times> matches)" where
  "x_loop [] st = Inr st"
| "x_loop ((key, buffer) # rest) (header_string, matches) =
     (case re_search buffer header_string of
        None \<Rightarrow> Inl AttributeError
      | Some (pre, m, g, t) \<Rightarrow>
          (case group g 3 of
             Inl e \<Rightarrow> Inl e
           | Inr v \<Rightarrow>
               (case re_sub buffer x_repl header_string of
                  Inl e \<Rightarrow> Inl e
                | Inr h \<Rightarrow> x_loop rest (h, matches(key \<mapsto> v)))))"

fun meta_loop :: "(string \<times> re) list \<Rightarrow> string \<times> matches \<Rightarrow> error + (string \<times> matches)" where
  "meta_loop [] st = Inr st"
| "meta_loop ((key, buffer) # rest) (header_string, matches) =
     (case re_search buffer header_string of
        None \<Rightarrow> meta_loop rest (header_string, matches)
      | Some (pre, m, g, t) \<Rightarrow>
          (case group g 2 of
             Inl e \<Rightarrow> Inl e
           | Inr v \<Rightarrow> meta_loop rest (header_string, matches(key \<mapsto> v))))"

text \<open>
  Lines 237 to 242 of the source: the raw frame-of-reference value (with its quotes), its
  component 10 between dots, the characters 2 to 7 of that, and the date they spell.
\<close>

definition exam_date_of :: "string \<Rightarrow> error + (string \<times> string)" where
  "exam_date_of header_string =
     (case re_search frame_of_reference_re header_string of
        None \<Rightarrow> Inl AttributeError
      | Some (pre, m, g, t) \<Rightarrow>
          (case group g 2 of
             Inl e \<Rightarrow> Inl e
           | Inr frame_of_reference \<Rightarrow>
               (case index (split_on (CHR ''.'') frame_of_reference) 10 of
                  Inl e \<Rightarrow> Inl e
                | Inr exam_date_time \<Rightarrow>
                    (let exam_date = take 6 (drop 2 exam_date_time)
                     in case get_date exam_date of
                          Inl e \<Rightarrow> Inl e
                        | Inr d \<Rightarrow> Inr (exam_date, d)))))"

definition anonymize_twix_header :: "string \<Rightarrow> error + (string \<times> matches)" where
  "anonymize_twix_header header_string =
     (case exam_date_of header_string of
        Inl e \<Rightarrow> Inl e
      | Inr (exam_date, d) \<Rightarrow>
          (case number_loop number_buffer (header_string, [''Exam_date'' \<mapsto> d]) of
             Inl e \<Rightarrow> Inl e
           | Inr st1 \<Rightarrow>
               (case zero_loop zero_buffer st1 of
                  Inl e \<Rightarrow> Inl e
                | Inr st2 \<Rightarrow>
                    (case x_loop x_buffer st2 of
                       Inl e \<Rightarrow> Inl e
                     | Inr st3 \<Rightarrow>
                         (case meta_loop meta_buffer st3 of
                            Inl e \<Rightarrow> Inl e
                          | Inr (h, matches) \<Rightarrow>
                              (case re_sub (sweep_re exam_date) sweep_repl h of
                                 Inl e \<Rightarrow> Inl e
                               | Inr h' \<Rightarrow> Inr (h', matches)))))))"

section \<open>Binary input and output\<close>

text \<open>
  A file is its bytes; a byte and a latin-1 character are the same thing, so
  \<^verbatim>\<open>decode("latin-1")\<close> and \<^verbatim>\<open>encode("latin-1")\<close> are the identity. The formats
  \<^verbatim>\<open>"I"\<close> and \<^verbatim>\<open>"Q"\<close> of \<^verbatim>\<open>struct\<close> are unsigned integers of 4 and 8 bytes, the
  low byte first (the native order of the machines the tool runs on), and
  \<^verbatim>\<open>"IIQQ64s64s"\<close> has no padding: 152 bytes.
\<close>

type_synonym bytes = "char list"

fun le_nat :: "bytes \<Rightarrow> nat" where
  "le_nat [] = 0"
| "le_nat (b # bs) = of_char b + 256 * le_nat bs"

fun pack_le :: "nat \<Rightarrow> nat \<Rightarrow> bytes" where
  "pack_le 0 n = []"
| "pack_le (Suc k) n = char_of (n mod 256) # pack_le k (n div 256)"

definition unpack_I :: "bytes \<Rightarrow> error + nat" where
  "unpack_I b = (if length b = 4 then Inr (le_nat b) else Inl StructError)"

definition unpack_II :: "bytes \<Rightarrow> error + (nat \<times> nat)" where
  "unpack_II b =
     (if length b = 8 then Inr (le_nat (take 4 b), le_nat (drop 4 b)) else Inl StructError)"

definition pack_I :: "nat \<Rightarrow> bytes" where
  "pack_I n = pack_le 4 n"

definition pack_II :: "nat \<Rightarrow> nat \<Rightarrow> bytes" where
  "pack_II a b = pack_le 4 a @ pack_le 4 b"

record entry =
  meas_id :: nat
  file_id :: nat
  offset :: nat
  length_of :: nat
  patient_name :: bytes
  protocol_name :: bytes

definition unpack_entry :: "bytes \<Rightarrow> error + entry" where
  "unpack_entry b =
     (if length b = 152 then
        Inr \<lparr>meas_id = le_nat (take 4 b), file_id = le_nat (take 4 (drop 4 b)),
             offset = le_nat (take 8 (drop 8 b)), length_of = le_nat (take 8 (drop 16 b)),
             patient_name = take 64 (drop 24 b), protocol_name = take 64 (drop 88 b)\<rparr>
      else Inl StructError)"

text \<open>
  \<^verbatim>\<open>"64s"\<close> packs exactly 64 bytes: a longer value is cut and a shorter one filled with
  zero bytes.
\<close>

definition pack_64s :: "bytes \<Rightarrow> bytes" where
  "pack_64s b = take 64 b @ replicate (64 - length b) (CHR 0x00)"

definition pack_entry :: "entry \<Rightarrow> bytes" where
  "pack_entry e =
     pack_le 4 (meas_id e) @ pack_le 4 (file_id e) @ pack_le 8 (offset e) @
     pack_le 8 (length_of e) @ pack_64s (patient_name e) @ pack_64s (protocol_name e)"

text \<open>
  The input stream: \<open>read fin pos n\<close> is \<^verbatim>\<open>fin.read(n)\<close> at position \<open>pos\<close>, with the
  position after it. A read stops at the end of the file; the length -1 reads all that
  is left and a length below it raises \<^verbatim>\<open>ValueError\<close>. A seek to an offset that does not
  fit a signed 64-bit integer raises \<^verbatim>\<open>OverflowError\<close>.
\<close>

definition read :: "bytes \<Rightarrow> nat \<Rightarrow> int \<Rightarrow> error + (bytes \<times> nat)" where
  "read fin pos n =
     (if n < -1 then Inl ValueError
      else
        (let data = (if n = -1 then drop pos fin else take (nat n) (drop pos fin))
         in Inr (data, pos + length data)))"

definition seek :: "nat \<Rightarrow> error + nat" where
  "seek off = (if off < 2 ^ 63 then Inr off else Inl OverflowError)"

text \<open>
  The output stream: its name, its bytes so far and its position. A write past the end
  fills the gap with zero bytes.
\<close>

record ofile =
  name :: string
  content :: bytes
  pos :: nat

definition write_at :: "nat \<Rightarrow> bytes \<Rightarrow> bytes \<Rightarrow> bytes" where
  "write_at p data buf =
     take p buf @ replicate (p - length buf) (CHR 0x00) @ data @ drop (p + length data) buf"

definition fwrite :: "ofile \<Rightarrow> bytes \<Rightarrow> ofile" where
  "fwrite fout data =
     fout\<lparr>content := write_at (pos fout) data (content fout), pos := pos fout + length data\<rparr>"

definition oseek :: "ofile \<Rightarrow> nat \<Rightarrow> ofile" where
  "oseek fout p = fout\<lparr>pos := p\<rparr>"

section \<open>The two container variants\<close>

text \<open>
  \<^verbatim>\<open>header[:-24]\<close> and \<^verbatim>\<open>header[-24:]\<close>: all but the last 24 bytes, and the last 24 (the
  whole of a shorter header).
\<close>

definition header_text :: "bytes \<Rightarrow> string" where
  "header_text header = take (length header - 24) header"

definition header_trailing :: "bytes \<Rightarrow> bytes" where
  "header_trailing header = drop (length header - 24) header"

text \<open>
  Reading the header block at a position: the size on four bytes, then
  \<^verbatim>\<open>header_size - 4\<close> bytes. The result has the size, the bytes and the position after
  them.
\<close>

definition read_header :: "bytes \<Rightarrow> nat \<Rightarrow> error + (nat \<times> bytes \<times> nat)" where
  "read_header fin p =
     (case read fin p 4 of
        Inl e \<Rightarrow> Inl e
      | Inr (b, p1) \<Rightarrow>
          (case unpack_I b of
             Inl e \<Rightarrow> Inl e
           | Inr header_size \<Rightarrow>
               (case read fin p1 (int header_size - 4) of
                  Inl e \<Rightarrow> Inl e
                | Inr (header, p2) \<Rightarrow> Inr (header_size, header, p2))))"

text \<open>Variant B, \<^verbatim>\<open>anonymize_twix_vb\<close>. The result is the output stream and what is returned.\<close>

definition anonymize_twix_vb :: "bytes \<Rightarrow> ofile \<Rightarrow> bool \<Rightarrow> ofile \<times> (error + (string \<times> matches))" where
  "anonymize_twix_vb fin fout meta_only =
     (case read_header fin 0 of
        Inl e \<Rightarrow> (fout, Inl e)
      | Inr (header_size, header, p) \<Rightarrow>
          (case anonymize_twix_header (header_text header) of
             Inl e \<Rightarrow> (fout, Inl e)
           | Inr (anonymized_header, matches) \<Rightarrow>
               if \<not> meta_only then
                 (case read fin p (-1) of
                    Inl e \<Rightarrow>
                      (fwrite (fwrite (fwrite fout (pack_I header_size)) anonymized_header)
                         (header_trailing header), Inl e)
                  | Inr (rest, p') \<Rightarrow>
                      (fwrite (fwrite (fwrite (fwrite fout (pack_I header_size)) anonymized_header)
                         (header_trailing header)) rest,
                       Inr (name fout, matches)))
               else (fout, Inr (name fout, matches))))"

text \<open>
  Variant A, \<^verbatim>\<open>anonymize_twix_vd\<close>. One turn of its loop first reads: the table entry
  \<open>i\<close>, then the header block at the entry's offset.
\<close>

definition read_measurement :: "bytes \<Rightarrow> nat \<Rightarrow> error + (entry \<times> nat \<times> bytes \<times> nat)" where
  "read_measurement fin i =
     (case read fin (8 + 152 * i) 152 of
        Inl e \<Rightarrow> Inl e
      | Inr (b, p0) \<Rightarrow>
          (case unpack_entry b of
             Inl e \<Rightarrow> Inl e
           | Inr en \<Rightarrow>
               (case seek (offset en) of
                  Inl e \<Rightarrow> Inl e
                | Inr p \<Rightarrow>
                    (case read_header fin p of
                       Inl e \<Rightarrow> Inl e
                     | Inr (header_size, header, p2) \<Rightarrow> Inr (en, header_size, header, p2)))))"

definition anon_patient_name :: bytes where
  "anon_patient_name = replicate 64 (CHR ''x'')"

definition vd_measurement :: "bytes \<Rightarrow> bool \<Rightarrow> nat \<Rightarrow> ofile \<Rightarrow> ofile \<times> (error + matches)" where
  "vd_measurement fin meta_only i fout =
     (case read_measurement fin i of
        Inl e \<Rightarrow> (fout, Inl e)
      | Inr (en, header_size, header, p) \<Rightarrow>
          (case anonymize_twix_header (header_text header) of
             Inl e \<Rightarrow> (fout, Inl e)
           | Inr (anonymized_header, matches) \<Rightarrow>
               if \<not> meta_only then
                 (let fout1 = fwrite (oseek fout (8 + 152 * i))
                                (pack_entry (en\<lparr>patient_name := anon_patient_name\<rparr>));
                      fout2 = fwrite (fwrite (fwrite (oseek fout1 (offset en)) (pack_I header_size))
                                anonymized_header) (header_trailing header)
                  in case read fin p (int (length_of en) - int header_size) of
                       Inl e \<Rightarrow> (fout2, Inl e)
                     | Inr (payload, p') \<Rightarrow> (fwrite fout2 payload, Inr matches))
               else (fout, Inr matches)))"

text \<open>
  The loop over \<^verbatim>\<open>range(num_measurements)\<close>. The variable \<^verbatim>\<open>matches\<close> has no value
  before the first turn: it is \<open>None\<close> until a turn assigns it.
\<close>

fun vd_loop :: "bytes \<Rightarrow> bool \<Rightarrow> nat list \<Rightarrow> ofile \<Rightarrow> matches option \<Rightarrow> ofile \<times> (error + matches option)" where
  "vd_loop fin meta_only [] fout mo = (fout, Inr mo)"
| "vd_loop fin meta_only (i # rest) fout mo =
     (case vd_measurement fin meta_only i fout of
        (fout', Inl e) \<Rightarrow> (fout', Inl e)
      | (fout', Inr matches) \<Rightarrow> vd_loop fin meta_only rest fout' (Some matches))"

definition anonymize_twix_vd :: "bytes \<Rightarrow> ofile \<Rightarrow> bool \<Rightarrow> ofile \<times> (error + (string \<times> matches))" where
  "anonymize_twix_vd fin fout meta_only =
     (case read fin 0 8 of
        Inl e \<Rightarrow> (fout, Inl e)
      | Inr (b, p) \<Rightarrow>
          (case unpack_II b of
             Inl e \<Rightarrow> (fout, Inl e)
           | Inr (twix_id, num_measurements) \<Rightarrow>
               (let fout0 = (if \<not> meta_only then fwrite fout (pack_II twix_id num_measurements)
                             else fout)
                in case vd_loop fin meta_only [0..<num_measurements] fout0 None of
                     (fout', Inl e) \<Rightarrow> (fout', Inl e)
                   | (fout', Inr None) \<Rightarrow> (fout', Inl UnboundLocalError)
                   | (fout', Inr (Some matches)) \<Rightarrow> (fout', Inr (name fout', matches)))))"

section \<open>The dispatcher\<close>

text \<open>
  \<^verbatim>\<open>read_and_anonymize\<close> and \<^verbatim>\<open>write_csv\<close>. The disk is the container files and the
  record tables by path; a table is its rows. The input is the bytes of the file named
  \<^verbatim>\<open>filename\<close>, \<open>rnd\<close> is the number that \<^verbatim>\<open>random.randint\<close> draws, and \<^verbatim>\<open>csv_path\<close> is
  given, as the caller \<^verbatim>\<open>anonymize_twix\<close> always does (its value ends in \<^verbatim>\<open>.csv\<close>, so
  it is never the output container's path).
\<close>

record disk =
  dat_files :: "string \<rightharpoonup> bytes"
  csv_files :: "string \<rightharpoonup> matches list"

record twix_anonymizer =
  filename :: string
  original_filename :: string
  save_path :: string
  csv_path :: string
  meta_only :: bool
  matches_of :: matches

function str_nat :: "nat \<Rightarrow> string" where
  "str_nat n = (if n < 10 then [digit_char n] else str_nat (n div 10) @ [digit_char (n mod 10)])"
  by pat_completeness auto
termination
  by (relation "measure id") auto

definition out_path :: "string \<Rightarrow> nat \<Rightarrow> string" where
  \<comment> \<open>\<^verbatim>\<open>Path(self.save_path, f"{str(random.randint(0, 10000))}.dat")\<close>\<close>
  "out_path dir rnd = dir @ ''/'' @ str_nat rnd @ ''.dat''"

definition write_csv :: "nat \<Rightarrow> twix_anonymizer \<Rightarrow> disk \<Rightarrow> twix_anonymizer \<times> disk" where
  "write_csv rnd self d =
     (let anonymized_id = str_nat rnd;
          row = [''anonymized_id'' \<mapsto> anonymized_id,
                 ''orig_filename'' \<mapsto> original_filename self] ++ matches_of self;
          self' = self\<lparr>matches_of := row, filename := csv_path self\<rparr>;
          rows = (case csv_files d (csv_path self) of None \<Rightarrow> [row] | Some old \<Rightarrow> old @ [row])
      in (self', d\<lparr>csv_files := (csv_files d)(csv_path self \<mapsto> rows)\<rparr>))"

definition read_and_anonymize :: "bytes \<Rightarrow> nat \<Rightarrow> twix_anonymizer \<Rightarrow> disk \<Rightarrow> disk \<times> (error + twix_anonymizer)" where
  "read_and_anonymize fin rnd self d =
     (case read fin 0 8 of
        Inl e \<Rightarrow> (d, Inl e)
      | Inr (b, p) \<Rightarrow>
          (case unpack_II b of
             Inl e \<Rightarrow> (d, Inl e)
           | Inr (first_uint, second_uint) \<Rightarrow>
               (let path = out_path (save_path self) rnd;
                    fout = \<lparr>name = path, content = [], pos = 0\<rparr>;
                    d1 = d\<lparr>dat_files := (dat_files d)(path \<mapsto> [])\<rparr>;
                    r = (if first_uint = 0 \<and> second_uint \<le> 64
                         then anonymize_twix_vd fin fout (meta_only self)
                         else anonymize_twix_vb fin fout (meta_only self))
                in case r of
                     (fout', Inl e) \<Rightarrow>
                       (d1\<lparr>dat_files := (dat_files d1)(path \<mapsto> content fout')\<rparr>, Inl e)
                   | (fout', Inr (nm, matches)) \<Rightarrow>
                       (let (self', d2) =
                              write_csv rnd (self\<lparr>filename := nm, matches_of := matches\<rparr>) d1;
                            d3 = d2\<lparr>dat_files := (dat_files d2)(path \<mapsto> content fout')\<rparr>
                        in if meta_only self
                           then (d3\<lparr>dat_files := (dat_files d3)(path := None)\<rparr>, Inr self')
                           else (d3, Inr self')))))"

section \<open>Variant A without measurements\<close>

lemma read_nonneg:
  "0 \<le> n \<Longrightarrow>
   read fin p n = Inr (take (nat n) (drop p fin), p + length (take (nat n) (drop p fin)))"
  by (simp add: read_def Let_def)

text \<open>
  C10. A container whose first eight bytes give a measurement count of 0 makes
  \<^verbatim>\<open>anonymize_twix_vd\<close> fail: the loop has no turn, \<^verbatim>\<open>matches\<close> is never assigned, and
  the \<^verbatim>\<open>return\<close> raises \<^verbatim>\<open>UnboundLocalError\<close>; no empty mapping is returned. When the
  identifier is 0 as well, the dispatcher classifies the container as Variant A (0 is at
  most 64) and fails in the same way.
\<close>

theorem vd_without_measurements:
  "unpack_II (take 8 fin) = Inr (twix_id, 0) \<Longrightarrow>
   snd (anonymize_twix_vd fin fout meta) = Inl UnboundLocalError \<and>
   (twix_id = 0 \<longrightarrow> snd (read_and_anonymize fin rnd self d) = Inl UnboundLocalError)"
  by (simp add: anonymize_twix_vd_def read_and_anonymize_def read_nonneg Let_def)

theorem vd_without_measurements_witness:
  "unpack_II (take 8 (replicate 8 (CHR 0x00))) = Inr (0, 0) \<and>
   snd (anonymize_twix_vd (replicate 8 (CHR 0x00))
          \<lparr>name = ''out/1.dat'', content = [], pos = 0\<rparr> False) = Inl UnboundLocalError \<and>
   snd (read_and_anonymize (replicate 8 (CHR 0x00)) 1
          \<lparr>filename = ''in.dat'', original_filename = ''in.dat'', save_path = ''out'',
           csv_path = ''out/in.csv'', meta_only = False, matches_of = Map.empty\<rparr>
          \<lparr>dat_files = Map.empty, csv_files = Map.empty\<rparr>) = Inl UnboundLocalError"
proof -
  have h: "unpack_II (take 8 (replicate 8 (CHR 0x00))) = Inr (0, 0)"
    by (simp add: unpack_II_def numeral_eq_Suc)
  from vd_without_measurements[OF h] h show ?thesis by simp
qed

end
